theory Spec2Isabelle
  imports Complex_Main "HOL-Library.Finite_Map" "HOL-Library.Word"
begin

section \<open>Go values used by package barcode\<close>

subsection \<open>float64\<close>

text \<open>
  A Go \<open>float64\<close> is an IEEE 754 binary64 value: not-a-number, a signed infinity, or a
  signed finite magnitude (the sign is kept apart, so that \<open>-0\<close> exists). \<open>Fin s q\<close>
  stands for \<open>(if s then - q else q)\<close>, with \<open>q\<close> a non-negative rational that
  binary64 can hold. Arithmetic rounds the exact result to the nearest value that
  binary64 can hold, ties to the even significand.
\<close>

datatype float64 = NaN | Inf bool | Fin bool rat

text \<open>The number of binary digits of a positive integer.\<close>

function bitlen :: "int \<Rightarrow> int" where
  "bitlen n = (if n \<le> 0 then 0 else 1 + bitlen (n div 2))"
  by pat_completeness auto
termination
  by (relation "measure nat") auto

declare bitlen.simps [simp del]

definition pow2 :: "int \<Rightarrow> rat" where
  "pow2 e = (if 0 \<le> e then 2 ^ nat e else 1 / 2 ^ nat (- e))"

text \<open>For \<open>q > 0\<close>, the exponent \<open>e\<close> with \<open>2 ^ e \<le> q < 2 ^ (e + 1)\<close>.\<close>

definition floor_log2 :: "rat \<Rightarrow> int" where
  "floor_log2 q =
     (let (a, b) = quotient_of q;
          d = bitlen a - bitlen b
      in if pow2 d \<le> q then d else d - 1)"

definition round_half_even :: "rat \<Rightarrow> int" where
  "round_half_even x =
     (let f = \<lfloor>x\<rfloor>; d = x - of_int f
      in if d < 1 / 2 then f
         else if 1 / 2 < d then f + 1
         else if even f then f else f + 1)"

text \<open>
  Rounding of a non-negative exact result \<open>q\<close> with sign \<open>s\<close>: 53 significant bits,
  the least exponent that of the subnormal numbers, overflow to infinity once the
  rounded magnitude reaches \<open>2 ^ 1024\<close>.
\<close>

definition binary64_round :: "bool \<Rightarrow> rat \<Rightarrow> float64" where
  "binary64_round s q =
     (if q = 0 then Fin s 0
      else let e = max (floor_log2 q) (- 1022);
               ulp = pow2 (e - 52);
               r = of_int (round_half_even (q / ulp)) * ulp
           in if 1024 \<le> floor_log2 r then Inf s else Fin s r)"

text \<open>The Go operator \<open>*\<close> on float64.\<close>

fun float64_mul :: "float64 \<Rightarrow> float64 \<Rightarrow> float64" where
  "float64_mul NaN _ = NaN"
| "float64_mul _ NaN = NaN"
| "float64_mul (Inf s) (Inf t) = Inf (s \<noteq> t)"
| "float64_mul (Inf s) (Fin t q) = (if q = 0 then NaN else Inf (s \<noteq> t))"
| "float64_mul (Fin s p) (Inf t) = (if p = 0 then NaN else Inf (s \<noteq> t))"
| "float64_mul (Fin s p) (Fin t q) = binary64_round (s \<noteq> t) (p * q)"

text \<open>The Go operator \<open>/\<close> on float64 (a zero divisor gives an infinity or NaN, no panic).\<close>

fun float64_div :: "float64 \<Rightarrow> float64 \<Rightarrow> float64" where
  "float64_div NaN _ = NaN"
| "float64_div _ NaN = NaN"
| "float64_div (Inf s) (Inf t) = NaN"
| "float64_div (Inf s) (Fin t q) = Inf (s \<noteq> t)"
| "float64_div (Fin s p) (Inf t) = Fin (s \<noteq> t) 0"
| "float64_div (Fin s p) (Fin t q) =
     (if q = 0 then (if p = 0 then NaN else Inf (s \<noteq> t))
      else binary64_round (s \<noteq> t) (p / q))"

text \<open>An untyped integer constant used as a float64 operand, such as \<open>72\<close>.\<close>

definition float64_const :: "int \<Rightarrow> float64" where
  "float64_const n = binary64_round (n < 0) (of_int \<bar>n\<bar>)"

text \<open>
  The conversion \<open>int(f)\<close>, with \<open>int\<close> of 64 bits: the fraction is discarded. Where the
  result does not fit (or \<open>f\<close> is no number) the language leaves the value to the
  implementation, here the parameter \<open>impl\<close>.
\<close>

definition float64_to_int :: "(float64 \<Rightarrow> int) \<Rightarrow> float64 \<Rightarrow> int" where
  "float64_to_int impl f =
     (case f of
        Fin s q \<Rightarrow>
          (let n = (if s then - \<lfloor>q\<rfloor> else \<lfloor>q\<rfloor>)
           in if - (2 ^ 63) \<le> n \<and> n < 2 ^ 63 then n else impl f)
      | _ \<Rightarrow> impl f)"

text \<open>The real number a finite float64 stands for.\<close>

fun float64_value :: "float64 \<Rightarrow> rat" where
  "float64_value (Fin s q) = (if s then - q else q)"
| "float64_value _ = 0"

subsection \<open>Errors, panics, interface values\<close>

text \<open>
  A Go \<open>error\<close> is \<open>nil\<close> or carries a message: \<open>error option\<close>, with \<open>None\<close> for
  \<open>nil\<close>. A method call on a nil interface value panics.
\<close>

datatype error = errors_New string

datatype panic = NilPointerDereference

type_synonym byte = "8 word"

subsection \<open>barcode.Barcode of github.com/boombuler/barcode\<close>

text \<open>
  The library's \<open>Metadata\<close> struct, and a value implementing its \<open>Barcode\<close> interface:
  what \<open>Metadata()\<close> and \<open>Content()\<close> return, and the image as rows of modules
  (\<open>True\<close> is black). A variable of the interface type holds such a value or \<open>nil\<close>.
\<close>

record barcode_Metadata =
  CodeKind :: string
  Dimensions :: byte

record barcode_Barcode =
  Metadata :: barcode_Metadata
  Content :: string
  Modules :: "bool list list"

type_synonym Barcode_iface = "barcode_Barcode option"

datatype qr_ErrorCorrectionLevel = qr_L | qr_M | qr_Q | qr_H

datatype qr_Encoding = qr_Auto | qr_Numeric | qr_AlphaNumeric | qr_Unicode

subsection \<open>Functions of other packages\<close>

text \<open>
  The encoders, the scaler, the JPEG encoder and the number formatter belong to other
  packages; the code is verified for whatever they return. A Go function with results
  \<open>(v, err)\<close> returns that pair. \<open>FormatFloat_E x\<close> is
  \<open>strconv.FormatFloat(x, 'E', -1, 64)\<close>; \<open>int_unrepresentable\<close> is what \<open>int(f)\<close> gives
  where the language leaves it to the implementation.
\<close>

record externals =
  codabar_Encode :: "string \<Rightarrow> Barcode_iface \<times> error option"
  code128_Encode :: "string \<Rightarrow> Barcode_iface \<times> error option"
  code39_Encode :: "string \<Rightarrow> bool \<Rightarrow> bool \<Rightarrow> Barcode_iface \<times> error option"
  datamatrix_Encode :: "string \<Rightarrow> Barcode_iface \<times> error option"
  ean_Encode :: "string \<Rightarrow> Barcode_iface \<times> error option"
  qr_Encode :: "string \<Rightarrow> qr_ErrorCorrectionLevel \<Rightarrow> qr_Encoding \<Rightarrow> Barcode_iface \<times> error option"
  twooffive_Encode :: "string \<Rightarrow> bool \<Rightarrow> Barcode_iface \<times> error option"
  barcode_Scale :: "Barcode_iface \<Rightarrow> int \<Rightarrow> int \<Rightarrow> Barcode_iface \<times> error option"
  jpeg_Encode :: "Barcode_iface \<Rightarrow> byte list \<times> error option"
  FormatFloat_E :: "float64 \<Rightarrow> string"
  int_unrepresentable :: "float64 \<Rightarrow> int"

section \<open>The state: registry, document, calls made\<close>

text \<open>
  \<open>barcodePdf\<close> is the interface the package asks of the PDF document, over a document
  state \<open>'h\<close>; \<open>'i\<close> is \<open>gofpdf.ImageInfoType\<close>, of which the code only asks whether
  a pointer to it is nil. The two getters read the document; the other three change it.
\<close>

record ('h, 'i) barcodePdf =
  GetConversionRatio :: "'h \<Rightarrow> float64"
  GetImageInfo :: "'h \<Rightarrow> string \<Rightarrow> 'i option"
  Image :: "'h \<Rightarrow> string \<Rightarrow> float64 \<Rightarrow> float64 \<Rightarrow> float64 \<Rightarrow> float64 \<Rightarrow> bool \<Rightarrow> string \<Rightarrow> int \<Rightarrow> string \<Rightarrow> 'h"
  RegisterImageReader :: "'h \<Rightarrow> string \<Rightarrow> string \<Rightarrow> byte list \<Rightarrow> 'i option \<times> 'h"
  SetError :: "'h \<Rightarrow> error \<Rightarrow> 'h"

text \<open>
  Every call that leaves the package with an effect is recorded, in order: the three
  changing methods of the document, the scaler and the JPEG encoder.
\<close>

datatype call =
    SetError_call error
  | RegisterImageReader_call string string "byte list"
  | Image_call string float64 float64 float64 float64 bool string int string
  | Scale_call Barcode_iface int int
  | jpeg_Encode_call Barcode_iface

text \<open>
  \<open>barcodes\<close> is the package variable \<open>var barcodes map[string]barcode.Barcode\<close> (a nil
  map reads as the empty one), \<open>doc\<close> the state of the document, \<open>calls\<close> the record
  of calls so far.
\<close>

record 'h state =
  barcodes :: "(string, Barcode_iface) fmap"
  doc :: 'h
  calls :: "call list"

definition do_SetError :: "('h, 'i) barcodePdf \<Rightarrow> error \<Rightarrow> 'h state \<Rightarrow> 'h state" where
  "do_SetError pdf err s =
     s\<lparr>doc := SetError pdf (doc s) err, calls := calls s @ [SetError_call err]\<rparr>"

definition do_RegisterImageReader ::
  "('h, 'i) barcodePdf \<Rightarrow> string \<Rightarrow> string \<Rightarrow> byte list \<Rightarrow> 'h state \<Rightarrow> 'h state" where
  "do_RegisterImageReader pdf imgName tp r s =
     s\<lparr>doc := snd (RegisterImageReader pdf (doc s) imgName tp r),
       calls := calls s @ [RegisterImageReader_call imgName tp r]\<rparr>"

definition do_Image ::
  "('h, 'i) barcodePdf \<Rightarrow> string \<Rightarrow> float64 \<Rightarrow> float64 \<Rightarrow> float64 \<Rightarrow> float64 \<Rightarrow> bool \<Rightarrow>
   string \<Rightarrow> int \<Rightarrow> string \<Rightarrow> 'h state \<Rightarrow> 'h state" where
  "do_Image pdf imageNameStr x y w h flow tp link linkStr s =
     s\<lparr>doc := Image pdf (doc s) imageNameStr x y w h flow tp link linkStr,
       calls := calls s @ [Image_call imageNameStr x y w h flow tp link linkStr]\<rparr>"

section \<open>Package barcode\<close>

text \<open>\<open>convertTo96Dpi\<close>: \<open>value * pdf.GetConversionRatio() / 72 * 96\<close>, left to right.\<close>

definition convertTo96Dpi :: "('h, 'i) barcodePdf \<Rightarrow> 'h \<Rightarrow> float64 \<Rightarrow> float64" where
  "convertTo96Dpi pdf d val =
     float64_mul
       (float64_div (float64_mul val (GetConversionRatio pdf d)) (float64_const 72))
       (float64_const 96)"

text \<open>\<open>uniqueBarcodeName\<close>.\<close>

definition uniqueBarcodeName :: "externals \<Rightarrow> string \<Rightarrow> float64 \<Rightarrow> float64 \<Rightarrow> string" where
  "uniqueBarcodeName ext code x y =
     (let xStr = FormatFloat_E ext x;
          yStr = FormatFloat_E ext y
      in ''barcode-'' @ code @ ''-'' @ xStr @ yStr)"

text \<open>\<open>barcodeKey\<close>: the two method calls panic on a nil interface value.\<close>

definition barcodeKey :: "Barcode_iface \<Rightarrow> panic + string" where
  "barcodeKey bcode =
     (case bcode of
        None \<Rightarrow> Inl NilPointerDereference
      | Some b \<Rightarrow> Inr (CodeKind (Metadata b) @ Content b))"

text \<open>
  \<open>Register\<close>. A panic leaves the state as it is at that point, and no key.
\<close>

definition Register :: "Barcode_iface \<Rightarrow> 'h state \<Rightarrow> (panic \<times> 'h state) + (string \<times> 'h state)" where
  "Register bcode s =
     (let s1 = (if fcard (fmdom (barcodes s)) = 0 then s\<lparr>barcodes := fmempty\<rparr> else s)
      in case barcodeKey bcode of
           Inl p \<Rightarrow> Inl (p, s1)
         | Inr key \<Rightarrow> Inr (key, s1\<lparr>barcodes := fmupd key bcode (barcodes s1)\<rparr>))"

text \<open>\<open>registerBarcode\<close>.\<close>

definition registerBarcode ::
  "('h, 'i) barcodePdf \<Rightarrow> Barcode_iface \<Rightarrow> error option \<Rightarrow> 'h state \<Rightarrow>
   (panic \<times> 'h state) + (string \<times> 'h state)" where
  "registerBarcode pdf bcode err s =
     (let s1 = (case err of Some e \<Rightarrow> do_SetError pdf e s | None \<Rightarrow> s)
      in Register bcode s1)"

text \<open>The seven \<open>Register...\<close> functions: encode, then \<open>registerBarcode\<close>.\<close>

definition RegisterCodabar ::
  "externals \<Rightarrow> ('h, 'i) barcodePdf \<Rightarrow> string \<Rightarrow> 'h state \<Rightarrow> (panic \<times> 'h state) + (string \<times> 'h state)" where
  "RegisterCodabar ext pdf code s =
     (let (bcode, err) = codabar_Encode ext code in registerBarcode pdf bcode err s)"

definition RegisterCode128 ::
  "externals \<Rightarrow> ('h, 'i) barcodePdf \<Rightarrow> string \<Rightarrow> 'h state \<Rightarrow> (panic \<times> 'h state) + (string \<times> 'h state)" where
  "RegisterCode128 ext pdf code s =
     (let (bcode, err) = code128_Encode ext code in registerBarcode pdf bcode err s)"

definition RegisterCode39 ::
  "externals \<Rightarrow> ('h, 'i) barcodePdf \<Rightarrow> string \<Rightarrow> bool \<Rightarrow> bool \<Rightarrow> 'h state \<Rightarrow>
   (panic \<times> 'h state) + (string \<times> 'h state)" where
  "RegisterCode39 ext pdf code includeChecksum fullASCIIMode s =
     (let (bcode, err) = code39_Encode ext code includeChecksum fullASCIIMode
      in registerBarcode pdf bcode err s)"

definition RegisterDataMatrix ::
  "externals \<Rightarrow> ('h, 'i) barcodePdf \<Rightarrow> string \<Rightarrow> 'h state \<Rightarrow> (panic \<times> 'h state) + (string \<times> 'h state)" where
  "RegisterDataMatrix ext pdf code s =
     (let (bcode, err) = datamatrix_Encode ext code in registerBarcode pdf bcode err s)"

definition RegisterEAN ::
  "externals \<Rightarrow> ('h, 'i) barcodePdf \<Rightarrow> string \<Rightarrow> 'h state \<Rightarrow> (panic \<times> 'h state) + (string \<times> 'h state)" where
  "RegisterEAN ext pdf code s =
     (let (bcode, err) = ean_Encode ext code in registerBarcode pdf bcode err s)"

definition RegisterQR ::
  "externals \<Rightarrow> ('h, 'i) barcodePdf \<Rightarrow> string \<Rightarrow> qr_ErrorCorrectionLevel \<Rightarrow> qr_Encoding \<Rightarrow> 'h state \<Rightarrow>
   (panic \<times> 'h state) + (string \<times> 'h state)" where
  "RegisterQR ext pdf code ecl mode s =
     (let (bcode, err) = qr_Encode ext code ecl mode in registerBarcode pdf bcode err s)"

definition RegisterTwoOfFive ::
  "externals \<Rightarrow> ('h, 'i) barcodePdf \<Rightarrow> string \<Rightarrow> bool \<Rightarrow> 'h state \<Rightarrow>
   (panic \<times> 'h state) + (string \<times> 'h state)" where
  "RegisterTwoOfFive ext pdf code interleaved s =
     (let (bcode, err) = twooffive_Encode ext code interleaved
      in registerBarcode pdf bcode err s)"

text \<open>\<open>registerScaledBarcode\<close>: the error it returns, and the state.\<close>

definition registerScaledBarcode ::
  "externals \<Rightarrow> ('h, 'i) barcodePdf \<Rightarrow> string \<Rightarrow> Barcode_iface \<Rightarrow> 'h state \<Rightarrow> error option \<times> 'h state" where
  "registerScaledBarcode ext pdf code bcode s =
     (let (buf, err) = jpeg_Encode ext bcode;
          s1 = s\<lparr>calls := calls s @ [jpeg_Encode_call bcode]\<rparr>
      in case err of
           Some e \<Rightarrow> (Some e, s1)
         | None \<Rightarrow> (None, do_RegisterImageReader pdf code ''jpg'' buf s1))"

text \<open>\<open>Barcode\<close>.\<close>

definition Barcode ::
  "externals \<Rightarrow> ('h, 'i) barcodePdf \<Rightarrow> string \<Rightarrow> float64 \<Rightarrow> float64 \<Rightarrow> float64 \<Rightarrow> float64 \<Rightarrow> bool \<Rightarrow>
   'h state \<Rightarrow> 'h state" where
  "Barcode ext pdf code x y w h flow s =
     (case fmlookup (barcodes s) code of
        None \<Rightarrow> do_SetError pdf (errors_New ''Barcode not found'') s
      | Some unscaled \<Rightarrow>
          (let bname = uniqueBarcodeName ext code x y;
               info = GetImageInfo pdf (doc s) bname
           in if info = None then
                (let wpx = float64_to_int (int_unrepresentable ext) (convertTo96Dpi pdf (doc s) w);
                     hpx = float64_to_int (int_unrepresentable ext) (convertTo96Dpi pdf (doc s) h);
                     (bcode, err) = barcode_Scale ext unscaled wpx hpx;
                     s1 = s\<lparr>calls := calls s @ [Scale_call unscaled wpx hpx]\<rparr>
                 in case err of
                      Some e \<Rightarrow> do_SetError pdf e s1
                    | None \<Rightarrow>
                        (let (err2, s2) = registerScaledBarcode ext pdf bname bcode s1
                         in case err2 of
                              Some e \<Rightarrow> do_SetError pdf e s2
                            | None \<Rightarrow> do_Image pdf bname x y (float64_const 0) (float64_const 0) flow ''jpg'' 0 [] s2))
              else do_Image pdf bname x y (float64_const 0) (float64_const 0) flow ''jpg'' 0 [] s))"

section \<open>A document and a set of library functions to run the code on\<close>

text \<open>
  Modelled from the spec: the PDF document, which belongs to gofpdf and is known only
  by the five capabilities of the spec's external interfaces. \<open>RegisterImageReader\<close>
  stores the encoded bytes and their format tag under the name, \<open>GetImageInfo\<close> finds
  them again, \<open>Image\<close> draws by name, \<open>SetError\<close> fills the single error slot (the last
  write wins), \<open>GetConversionRatio\<close> returns the unit ratio.
\<close>

record sample_doc =
  ratio :: float64
  images :: "(string, string \<times> byte list) fmap"
  err_slot :: "error option"
  drawn :: "string list"

definition sample_pdf :: "(sample_doc, string \<times> byte list) barcodePdf" where
  "sample_pdf =
     \<lparr>GetConversionRatio = ratio,
      GetImageInfo = (\<lambda>d name. fmlookup (images d) name),
      Image = (\<lambda>d name x y w h flow tp link linkStr. d\<lparr>drawn := drawn d @ [name]\<rparr>),
      RegisterImageReader =
        (\<lambda>d name tp r. (Some (tp, r), d\<lparr>images := fmupd name (tp, r) (images d)\<rparr>)),
      SetError = (\<lambda>d e. d\<lparr>err_slot := Some e\<rparr>)\<rparr>"

definition new_doc :: "float64 \<Rightarrow> sample_doc" where
  "new_doc k = \<lparr>ratio = k, images = fmempty, err_slot = None, drawn = []\<rparr>"

definition initial_state :: "float64 \<Rightarrow> sample_doc state" where
  "initial_state k = \<lparr>barcodes = fmempty, doc = new_doc k, calls = []\<rparr>"

text \<open>
  Library functions for the examples. An encoder accepts the content or returns
  \<open>(nil, err)\<close>, as the encoders of github.com/boombuler/barcode do; the numeric ones
  accept digits only. The scaler refuses a target that is not positive. The JPEG
  encoder returns a start-of-image and an end-of-image marker for any image.
\<close>

definition symbol :: "string \<Rightarrow> string \<Rightarrow> barcode_Barcode" where
  "symbol kind content =
     \<lparr>Metadata = \<lparr>CodeKind = kind, Dimensions = 1\<rparr>, Content = content, Modules = [[True, False, True]]\<rparr>"

definition is_digit :: "char \<Rightarrow> bool" where
  "is_digit c = (c \<in> set ''0123456789'')"

definition encode_if :: "bool \<Rightarrow> string \<Rightarrow> string \<Rightarrow> string \<Rightarrow> Barcode_iface \<times> error option" where
  "encode_if ok kind content msg =
     (if ok then (Some (symbol kind content), None) else (None, Some (errors_New msg)))"

fun dec_digits :: "nat \<Rightarrow> string" where
  "dec_digits n = (if n < 10 then [''0123456789'' ! n] else dec_digits (n div 10) @ [''0123456789'' ! (n mod 10)])"

declare dec_digits.simps [simp del]

fun strip_zeros :: "string \<Rightarrow> string" where
  "strip_zeros ds = (if ds \<noteq> [] \<and> last ds = CHR ''0'' then strip_zeros (butlast ds) else ds)"

declare strip_zeros.simps [simp del]

text \<open>
  \<open>strconv.FormatFloat(x, 'E', -1, 64)\<close> where the shortest digits that read back as
  \<open>x\<close> are plain to see: NaN, the infinities, and whole numbers below \<open>2 ^ 53\<close>, whose
  digits are their own without the trailing zeros (\<open>15\<close> gives \<open>1.5E+01\<close>). Other
  values need the digit search of the library; they get the empty string here and the
  examples stay away from them.
\<close>

definition FormatFloat_E_whole :: "float64 \<Rightarrow> string" where
  "FormatFloat_E_whole x =
     (case x of
        NaN \<Rightarrow> ''NaN''
      | Inf s \<Rightarrow> (if s then ''-Inf'' else ''+Inf'')
      | Fin s q \<Rightarrow>
          (if of_int \<lfloor>q\<rfloor> = q \<and> q < 2 ^ 53 then
             (let n = nat \<lfloor>q\<rfloor>;
                  all = dec_digits n;
                  ds = (if n = 0 then ''0'' else strip_zeros all);
                  e = dec_digits (length all - 1)
              in (if s then ''-'' else [])
                 @ [hd ds] @ (if tl ds = [] then [] else ''.'' @ tl ds)
                 @ ''E+'' @ (if length e < 2 then ''0'' @ e else e))
           else []))"

definition sample_ext :: externals where
  "sample_ext =
     \<lparr>codabar_Encode = (\<lambda>c. encode_if (c \<noteq> []) ''Codabar'' c ''codabar: invalid content''),
      code128_Encode = (\<lambda>c. encode_if (c \<noteq> [] \<and> length c \<le> 80) ''Code 128'' c ''code128: invalid content''),
      code39_Encode = (\<lambda>c includeChecksum fullASCIIMode. encode_if (c \<noteq> []) ''Code 39'' c ''code39: invalid content''),
      datamatrix_Encode = (\<lambda>c. encode_if (c \<noteq> []) ''DataMatrix'' c ''datamatrix: invalid content''),
      ean_Encode = (\<lambda>c. encode_if (list_all is_digit c \<and> length c = 13) ''EAN 13'' c ''invalid ean code data''),
      qr_Encode = (\<lambda>c ecl mode. encode_if (c \<noteq> []) ''QR Code'' c ''qr: invalid content''),
      twooffive_Encode = (\<lambda>c interleaved. encode_if (list_all is_digit c) ''2 of 5'' c ''can only encode numerical digits (0-9)''),
      barcode_Scale =
        (\<lambda>b w h. if 0 < w \<and> 0 < h then (b, None)
                  else (None, Some (errors_New ''can not scale barcode to an image smaller than 1x1''))),
      jpeg_Encode = (\<lambda>b. ([0xFF, 0xD8, 0xFF, 0xD9], None)),
      FormatFloat_E = FormatFloat_E_whole,
      int_unrepresentable = (\<lambda>f. - (2 ^ 63))\<rparr>"

section \<open>Notions used to state the properties\<close>

text \<open>The pixel size \<open>Barcode\<close> passes to the scaler for a requested size \<open>v\<close>.\<close>

definition target_px :: "externals \<Rightarrow> ('h, 'i) barcodePdf \<Rightarrow> 'h state \<Rightarrow> float64 \<Rightarrow> int" where
  "target_px ext pdf s v = float64_to_int (int_unrepresentable ext) (convertTo96Dpi pdf (doc s) v)"

text \<open>
  Truncation toward zero of a rational number, and the float64 values that \<open>int(f)\<close>
  converts without leaving the result to the implementation.
\<close>

definition trunc_toward_zero :: "rat \<Rightarrow> int" where
  "trunc_toward_zero v = (if v < 0 then \<lceil>v\<rceil> else \<lfloor>v\<rfloor>)"

definition int_representable :: "float64 \<Rightarrow> bool" where
  "int_representable f = (case f of Fin s q \<Rightarrow> 0 \<le> q \<and> \<lfloor>q\<rfloor> < 2 ^ 63 | _ \<Rightarrow> False)"

text \<open>The calls made between a state and a later one.\<close>

definition new_calls :: "'h state \<Rightarrow> 'h state \<Rightarrow> call list" where
  "new_calls s s' = drop (length (calls s)) (calls s')"

text \<open>The image name and the format tag a call hands to the document, if any.\<close>

fun image_name :: "call \<Rightarrow> string option" where
  "image_name (RegisterImageReader_call imgName tp r) = Some imgName"
| "image_name (Image_call imageNameStr x y w h flow tp link linkStr) = Some imageNameStr"
| "image_name _ = None"

fun format_tag :: "call \<Rightarrow> string option" where
  "format_tag (RegisterImageReader_call imgName tp r) = Some tp"
| "format_tag (Image_call imageNameStr x y w h flow tp link linkStr) = Some tp"
| "format_tag _ = None"

fun is_Image_call :: "call \<Rightarrow> bool" where
  "is_Image_call (Image_call imageNameStr x y w h flow tp link linkStr) = True"
| "is_Image_call _ = False"

fun is_RegisterImageReader_call :: "call \<Rightarrow> bool" where
  "is_RegisterImageReader_call (RegisterImageReader_call imgName tp r) = True"
| "is_RegisterImageReader_call _ = False"

fun is_rasterization :: "call \<Rightarrow> bool" where
  "is_rasterization (Scale_call b w h) = True"
| "is_rasterization (jpeg_Encode_call b) = True"
| "is_rasterization _ = False"

text \<open>
  The spec's word "lossless", on the format tags a gofpdf document accepts for an image
  (\<open>jpg\<close>, \<open>jpeg\<close>, \<open>png\<close>, \<open>gif\<close>): PNG and GIF store the pixels as they are, JPEG
  does not.
\<close>

definition spec_lossless_format :: "string \<Rightarrow> bool" where
  "spec_lossless_format tp = (tp = ''png'' \<or> tp = ''gif'')"

text \<open>The key and the state of a registration that returned, the state of one that panicked.\<close>

fun key_of :: "(panic \<times> 'h state) + (string \<times> 'h state) \<Rightarrow> string option" where
  "key_of (Inr (key, s)) = Some key"
| "key_of (Inl (p, s)) = None"

fun state_of :: "(panic \<times> 'h state) + (string \<times> 'h state) \<Rightarrow> 'h state" where
  "state_of (Inr (key, s)) = s"
| "state_of (Inl (p, s)) = s"

text \<open>A caller registering several symbols in a row; a panic ends the run.\<close>

fun Register_each :: "Barcode_iface list \<Rightarrow> 'h state \<Rightarrow> (panic \<times> 'h state) + 'h state" where
  "Register_each [] s = Inr s"
| "Register_each (b # bs) s =
     (case Register b s of
        Inl p \<Rightarrow> Inl p
      | Inr (key, s1) \<Rightarrow> Register_each bs s1)"

text \<open>States for the examples: a QR symbol registered in a fresh document of unit ratio \<open>k\<close>.\<close>

definition qr_registered :: "float64 \<Rightarrow> sample_doc state" where
  "qr_registered k =
     state_of (RegisterQR sample_ext sample_pdf ''gofpdf'' qr_M qr_Auto (initial_state k))"

text \<open>Library functions whose JPEG encoder refuses every image.\<close>

definition jpeg_failing_ext :: externals where
  "jpeg_failing_ext =
     sample_ext\<lparr>jpeg_Encode := (\<lambda>b. ([], Some (errors_New ''jpeg: image is too large to encode'')))\<rparr>"

section \<open>The rounding of the float64 model\<close>

text \<open>
  \<open>floor_log2\<close> finds the binary exponent of a positive rational, and \<open>binary64_round\<close>
  returns a multiple of the unit in the last place, with a significand of at most 53
  bits, at most half a unit away from the exact result.
\<close>

lemma bitlen_nonneg: "0 \<le> bitlen n"
  by (induction n rule: bitlen.induct) (subst bitlen.simps, simp)

lemma bitlen_bounds: "0 < n \<Longrightarrow> 2 ^ nat (bitlen n - 1) \<le> n \<and> n < 2 ^ nat (bitlen n)"
proof (induction n rule: bitlen.induct)
  case (1 n)
  show ?case
  proof (cases "n = 1")
    case True
    then show ?thesis by (simp add: bitlen.simps)
  next
    case False
    with "1.prems" have h: "0 < n div 2" by simp
    with "1.IH" "1.prems" have ih: "2 ^ nat (bitlen (n div 2) - 1) \<le> n div 2" "n div 2 < 2 ^ nat (bitlen (n div 2))"
      by simp_all
    have bl: "bitlen n = 1 + bitlen (n div 2)" using "1.prems" by (subst bitlen.simps) simp
    have pos: "0 < bitlen (n div 2)" using h by (subst bitlen.simps) (simp add: bitlen_nonneg add_pos_nonneg)
    then have e1: "nat (bitlen n - 1) = Suc (nat (bitlen (n div 2) - 1))" unfolding bl by simp
    have e2: "nat (bitlen n) = Suc (nat (bitlen (n div 2)))" unfolding bl using pos by simp
    from ih show ?thesis unfolding e1 e2 by simp linarith
  qed
qed

lemma pow2_powi: "pow2 e = 2 powi e"
  by (simp add: pow2_def power_int_def power_inverse field_simps)

lemma floor_log2_bounds:
  assumes "0 < q"
  shows "pow2 (floor_log2 q) \<le> q \<and> q < pow2 (floor_log2 q + 1)"
proof -
  obtain a b where ab: "quotient_of q = (a, b)" by (cases "quotient_of q")
  then have b: "0 < b" and q: "q = of_int a / of_int b"
    using quotient_of_denom_pos quotient_of_div by blast+
  with assms have a: "0 < a" by (simp add: zero_less_divide_iff)
  define d where "d = bitlen a - bitlen b"
  note ba = bitlen_bounds [OF a] and bb = bitlen_bounds [OF b]
  have ra: "(2::rat) powi (bitlen a - 1) \<le> of_int a" "of_int a < (2::rat) powi bitlen a"
  proof -
    have "rat_of_int (2 ^ nat (bitlen a - 1)) \<le> of_int a" using ba by (simp only: of_int_le_iff)
    moreover have "0 \<le> bitlen a - 1" using ba a by (subst bitlen.simps) (simp add: bitlen_nonneg)
    ultimately show "(2::rat) powi (bitlen a - 1) \<le> of_int a" by (simp add: power_int_def)
    have "rat_of_int a < of_int (2 ^ nat (bitlen a))" using ba by (simp only: of_int_less_iff)
    then show "of_int a < (2::rat) powi bitlen a" by (simp add: power_int_def bitlen_nonneg)
  qed
  have rb: "(2::rat) powi (bitlen b - 1) \<le> of_int b" "of_int b < (2::rat) powi bitlen b"
  proof -
    have "rat_of_int (2 ^ nat (bitlen b - 1)) \<le> of_int b" using bb by (simp only: of_int_le_iff)
    moreover have "0 \<le> bitlen b - 1" using bb b by (subst bitlen.simps) (simp add: bitlen_nonneg)
    ultimately show "(2::rat) powi (bitlen b - 1) \<le> of_int b" by (simp add: power_int_def)
    have "rat_of_int b < of_int (2 ^ nat (bitlen b))" using bb by (simp only: of_int_less_iff)
    then show "of_int b < (2::rat) powi bitlen b" by (simp add: power_int_def bitlen_nonneg)
  qed
  have up: "q < 2 powi (d + 1)"
  proof -
    have "of_int a < (2::rat) powi bitlen a" by fact
    also have "(2::rat) powi bitlen a = 2 powi (d + 1) * 2 powi (bitlen b - 1)"
      by (simp add: d_def flip: power_int_add)
    also have "\<dots> \<le> 2 powi (d + 1) * of_int b"
      by (intro mult_left_mono) (use rb in simp_all)
    finally have "of_int a < 2 powi (d + 1) * rat_of_int b" .
    then show ?thesis using b by (simp add: q pos_divide_less_eq)
  qed
  have lo: "2 powi (d - 1) < q"
  proof -
    have "2 powi (d - 1) * rat_of_int b < 2 powi (d - 1) * 2 powi bitlen b"
      by (intro mult_strict_left_mono) (use rb in simp_all)
    also have "\<dots> = 2 powi (bitlen a - 1)"
      by (simp add: d_def flip: power_int_add)
    also have "\<dots> \<le> of_int a" by fact
    finally show ?thesis using b by (simp add: q pos_less_divide_eq)
  qed
  have fl: "floor_log2 q = (if 2 powi d \<le> q then d else d - 1)"
    by (simp add: floor_log2_def ab d_def pow2_powi)
  show ?thesis
  proof (cases "2 powi d \<le> q")
    case True
    with up fl show ?thesis by (simp add: pow2_powi)
  next
    case False
    with lo fl show ?thesis by (simp add: pow2_powi)
  qed
qed


lemma round_half_even_cases:
  fixes x :: rat
  defines "d \<equiv> x - of_int \<lfloor>x\<rfloor>"
  shows "0 \<le> d \<and> d < 1
         \<and> round_half_even x =
             (if d < 1 / 2 then \<lfloor>x\<rfloor> else if 1 / 2 < d then \<lfloor>x\<rfloor> + 1
              else if even \<lfloor>x\<rfloor> then \<lfloor>x\<rfloor> else \<lfloor>x\<rfloor> + 1)"
proof -
  have "0 \<le> d" unfolding d_def by simp
  moreover have "d < 1" unfolding d_def by linarith
  ultimately show ?thesis by (simp add: round_half_even_def Let_def d_def)
qed

lemma round_half_even_near: "\<bar>of_int (round_half_even x) - x\<bar> \<le> 1 / 2"
proof -
  define f where "f = \<lfloor>x\<rfloor>"
  define d where "d = x - of_int f"
  note c = round_half_even_cases [of x, folded f_def, folded d_def]
  have x: "x = of_int f + d" by (simp add: d_def)
  consider "d < 1 / 2" | "1 / 2 < d" | "d = 1 / 2" by linarith
  then show ?thesis
  proof cases
    case 1
    with c have "round_half_even x = f" by simp
    with 1 c show ?thesis unfolding x by simp
  next
    case 2
    with c have "round_half_even x = f + 1" by simp
    with 2 c show ?thesis unfolding x by simp
  next
    case 3
    with c have "round_half_even x = f \<or> round_half_even x = f + 1" by simp
    with 3 show ?thesis unfolding x by auto
  qed
qed

lemma round_half_even_mono_bound:
  assumes "0 \<le> x" and "x \<le> of_int k"
  shows "0 \<le> round_half_even x \<and> round_half_even x \<le> k"
proof -
  define f where "f = \<lfloor>x\<rfloor>"
  define d where "d = x - of_int f"
  note c = round_half_even_cases [of x, folded f_def, folded d_def]
  have x: "x = of_int f + d" by (simp add: d_def)
  have f0: "0 \<le> f" using assms(1) by (simp add: f_def)
  have fk: "f \<le> k" using assms(2) unfolding f_def by (metis floor_mono floor_of_int)
  have "f + 1 \<le> k" if "0 < d"
  proof -
    from that assms(2) have "rat_of_int f < of_int k" unfolding x by linarith
    then show ?thesis by simp
  qed
  with c f0 fk show ?thesis by (auto split: if_splits)
qed

lemma binary64_round_nearest:
  assumes "0 < q" and "binary64_round s q = Fin s' r"
  defines "ulp \<equiv> pow2 (max (floor_log2 q) (- 1022) - 52)"
  shows "s' = s \<and> \<bar>r - q\<bar> \<le> ulp / 2
         \<and> (\<exists>n. r = of_int n * ulp \<and> 0 \<le> n \<and> n \<le> 2 ^ 53)"
proof -
  define n where "n = round_half_even (q / ulp)"
  have ulp_pos: "0 < ulp" by (simp add: ulp_def pow2_powi)
  from assms(1,2) have r: "r = of_int n * ulp" and s: "s' = s"
    by (auto simp add: binary64_round_def Let_def n_def ulp_def split: if_splits)
  have "\<bar>of_int n - q / ulp\<bar> \<le> 1 / 2" unfolding n_def by (rule round_half_even_near)
  then have "\<bar>of_int n - q / ulp\<bar> * ulp \<le> 1 / 2 * ulp"
    using ulp_pos by (intro mult_right_mono) simp_all
  moreover have "\<bar>of_int n - q / ulp\<bar> * ulp = \<bar>(of_int n - q / ulp) * ulp\<bar>"
    using ulp_pos by (simp add: abs_mult)
  moreover have "(of_int n - q / ulp) * ulp = of_int n * ulp - q"
    using ulp_pos by (simp add: field_simps)
  ultimately have err: "\<bar>r - q\<bar> \<le> ulp / 2"
    unfolding r by simp
  have "q < pow2 (floor_log2 q + 1)" using floor_log2_bounds [OF assms(1)] by simp
  also have "\<dots> \<le> pow2 (max (floor_log2 q) (- 1022) + 1)"
    by (simp add: pow2_powi power_int_increasing)
  also have "\<dots> = 2 ^ 53 * ulp"
    by (simp add: ulp_def pow2_powi power_int_diff power_int_add)
  finally have "q / ulp \<le> 2 ^ 53" using ulp_pos by (simp add: pos_divide_le_eq)
  then have "q / ulp \<le> rat_of_int (2 ^ 53)" by simp
  moreover have "0 \<le> q / ulp" using assms(1) ulp_pos by simp
  ultimately have "0 \<le> n \<and> n \<le> 2 ^ 53"
    unfolding n_def by (rule round_half_even_mono_bound [rotated])
  with r s err show ?thesis by blast
qed

section \<open>Each path through the code\<close>

lemma fmap_card0: "fcard (fmdom m) = 0 \<Longrightarrow> m = fmempty"
proof (rule fmap_ext)
  fix x
  assume "fcard (fmdom m) = 0"
  then have "x |\<notin>| fmdom m" by simp
  then show "fmlookup m x = fmlookup fmempty x" by (simp add: fmdom_notD)
qed

text \<open>The lazy initialisation of \<open>Register\<close> replaces an empty map by an empty map.\<close>

lemma Register_lazy_init:
  "(if fcard (fmdom (barcodes s)) = 0 then s\<lparr>barcodes := fmempty\<rparr> else s) = s"
proof (cases "fcard (fmdom (barcodes s)) = 0")
  case True
  then have "barcodes s = fmempty" by (rule fmap_card0)
  then have "s\<lparr>barcodes := fmempty\<rparr> = s" by (cases s) simp
  with True show ?thesis by simp
next
  case False
  then show ?thesis by simp
qed

lemma Register_Some:
  "Register (Some b) s =
     Inr (CodeKind (Metadata b) @ Content b,
          s\<lparr>barcodes := fmupd (CodeKind (Metadata b) @ Content b) (Some b) (barcodes s)\<rparr>)"
  unfolding Register_def Register_lazy_init by (simp add: barcodeKey_def)

lemma Register_None: "Register None s = Inl (NilPointerDereference, s)"
  unfolding Register_def Register_lazy_init by (simp add: barcodeKey_def)

lemma Barcode_not_found:
  "fmlookup (barcodes s) code = None \<Longrightarrow>
   Barcode ext pdf code x y w h flow s = do_SetError pdf (errors_New ''Barcode not found'') s"
  by (simp add: Barcode_def)

lemma Barcode_hit:
  "fmlookup (barcodes s) code = Some unscaled \<Longrightarrow>
   GetImageInfo pdf (doc s) (uniqueBarcodeName ext code x y) \<noteq> None \<Longrightarrow>
   Barcode ext pdf code x y w h flow s =
     do_Image pdf (uniqueBarcodeName ext code x y) x y (float64_const 0) (float64_const 0) flow ''jpg'' 0 [] s"
  by (auto simp add: Barcode_def Let_def)

lemma Barcode_scale_error:
  "fmlookup (barcodes s) code = Some unscaled \<Longrightarrow>
   GetImageInfo pdf (doc s) (uniqueBarcodeName ext code x y) = None \<Longrightarrow>
   barcode_Scale ext unscaled (target_px ext pdf s w) (target_px ext pdf s h) = (bcode, Some e) \<Longrightarrow>
   Barcode ext pdf code x y w h flow s =
     do_SetError pdf e
       (s\<lparr>calls := calls s @ [Scale_call unscaled (target_px ext pdf s w) (target_px ext pdf s h)]\<rparr>)"
  by (simp add: Barcode_def Let_def target_px_def)

lemma Barcode_encode_error:
  "fmlookup (barcodes s) code = Some unscaled \<Longrightarrow>
   GetImageInfo pdf (doc s) (uniqueBarcodeName ext code x y) = None \<Longrightarrow>
   barcode_Scale ext unscaled (target_px ext pdf s w) (target_px ext pdf s h) = (bcode, None) \<Longrightarrow>
   jpeg_Encode ext bcode = (buf, Some e) \<Longrightarrow>
   Barcode ext pdf code x y w h flow s =
     do_SetError pdf e
       (s\<lparr>calls := calls s @ [Scale_call unscaled (target_px ext pdf s w) (target_px ext pdf s h),
                               jpeg_Encode_call bcode]\<rparr>)"
  by (simp add: Barcode_def Let_def target_px_def registerScaledBarcode_def)

lemma Barcode_miss_drawn:
  "fmlookup (barcodes s) code = Some unscaled \<Longrightarrow>
   GetImageInfo pdf (doc s) (uniqueBarcodeName ext code x y) = None \<Longrightarrow>
   barcode_Scale ext unscaled (target_px ext pdf s w) (target_px ext pdf s h) = (bcode, None) \<Longrightarrow>
   jpeg_Encode ext bcode = (buf, None) \<Longrightarrow>
   Barcode ext pdf code x y w h flow s =
     do_Image pdf (uniqueBarcodeName ext code x y) x y (float64_const 0) (float64_const 0) flow ''jpg'' 0 []
       (do_RegisterImageReader pdf (uniqueBarcodeName ext code x y) ''jpg'' buf
          (s\<lparr>calls := calls s @ [Scale_call unscaled (target_px ext pdf s w) (target_px ext pdf s h),
                                  jpeg_Encode_call bcode]\<rparr>))"
  by (simp add: Barcode_def Let_def target_px_def registerScaledBarcode_def)

text \<open>The calls of one \<open>Barcode\<close> call: one of five sequences, one for each path.\<close>

lemma new_calls_append [simp]: "calls s' = calls s @ cs \<Longrightarrow> new_calls s s' = cs"
  by (simp add: new_calls_def)

lemma Barcode_calls_cases:
  "new_calls s (Barcode ext pdf code x y w h flow s) = [SetError_call (errors_New ''Barcode not found'')] \<or>
   new_calls s (Barcode ext pdf code x y w h flow s) = [Image_call (uniqueBarcodeName ext code x y) x y (float64_const 0) (float64_const 0) flow ''jpg'' 0 []] \<or>
   (\<exists>u e. new_calls s (Barcode ext pdf code x y w h flow s) =
      [Scale_call u (target_px ext pdf s w) (target_px ext pdf s h), SetError_call e]) \<or>
   (\<exists>u b e. new_calls s (Barcode ext pdf code x y w h flow s) =
      [Scale_call u (target_px ext pdf s w) (target_px ext pdf s h), jpeg_Encode_call b, SetError_call e]) \<or>
   (\<exists>u b buf. new_calls s (Barcode ext pdf code x y w h flow s) =
      [Scale_call u (target_px ext pdf s w) (target_px ext pdf s h), jpeg_Encode_call b,
       RegisterImageReader_call (uniqueBarcodeName ext code x y) ''jpg'' buf,
       Image_call (uniqueBarcodeName ext code x y) x y (float64_const 0) (float64_const 0) flow ''jpg'' 0 []])"
proof (cases "fmlookup (barcodes s) code")
  case None
  then show ?thesis by (simp add: Barcode_not_found do_SetError_def)
next
  case (Some unscaled)
  show ?thesis
  proof (cases "GetImageInfo pdf (doc s) (uniqueBarcodeName ext code x y) = None")
    case False
    with Some show ?thesis by (simp add: Barcode_hit do_Image_def)
  next
    case True
    obtain bcode err where sc: "barcode_Scale ext unscaled (target_px ext pdf s w) (target_px ext pdf s h) = (bcode, err)"
      by (cases "barcode_Scale ext unscaled (target_px ext pdf s w) (target_px ext pdf s h)")
    show ?thesis
    proof (cases err)
      case (Some e)
      with \<open>fmlookup (barcodes s) code = Some unscaled\<close> True sc show ?thesis
        by (simp add: Barcode_scale_error do_SetError_def)
    next
      case None
      obtain buf err2 where je: "jpeg_Encode ext bcode = (buf, err2)"
        by (cases "jpeg_Encode ext bcode")
      show ?thesis
      proof (cases err2)
        case (Some e)
        with \<open>fmlookup (barcodes s) code = Some unscaled\<close> True sc None je show ?thesis
          by (simp add: Barcode_encode_error do_SetError_def)
      next
        case None2: None
        with \<open>fmlookup (barcodes s) code = Some unscaled\<close> True sc None je show ?thesis
          by (simp add: Barcode_miss_drawn do_Image_def do_RegisterImageReader_def)
      qed
    qed
  qed
qed

section \<open>The examples evaluated\<close>

lemma qr_registered_eq:
  "qr_registered k =
     \<lparr>barcodes = fmupd ''QR Codegofpdf'' (Some (symbol ''QR Code'' ''gofpdf'')) fmempty,
      doc = new_doc k, calls = []\<rparr>"
  by (simp add: qr_registered_def RegisterQR_def sample_ext_def encode_if_def registerBarcode_def
      Register_Some symbol_def initial_state_def)

lemma qr_registered_lookup:
  "fmlookup (barcodes (qr_registered k)) ''QR Codegofpdf'' = Some (Some (symbol ''QR Code'' ''gofpdf''))"
  by (simp add: qr_registered_eq)

lemma qr_registered_fresh: "GetImageInfo sample_pdf (doc (qr_registered k)) name = None"
  by (simp add: qr_registered_eq sample_pdf_def new_doc_def)

lemma name_15:
  "uniqueBarcodeName sample_ext code (Fin False 15) (Fin False 15) = ''barcode-'' @ code @ ''-1.5E+011.5E+01''"
proof -
  have "FormatFloat_E_whole (Fin False 15) = ''1.5E+01''" by code_simp
  then show ?thesis by (simp add: uniqueBarcodeName_def sample_ext_def)
qed

lemma target_px_sample:
  "target_px ext sample_pdf (qr_registered k) v =
     float64_to_int (int_unrepresentable ext) (convertTo96Dpi sample_pdf (new_doc k) v)"
  by (simp add: target_px_def qr_registered_eq)

lemma convert_100: "float64_to_int i (convertTo96Dpi sample_pdf (new_doc (Fin False 1)) (Fin False 100)) = 133"
  by code_simp

lemma convert_10: "float64_to_int i (convertTo96Dpi sample_pdf (new_doc (Fin False 1)) (Fin False 10)) = 13"
  by code_simp

lemma convert_0: "float64_to_int i (convertTo96Dpi sample_pdf (new_doc (Fin False 1)) (Fin False 0)) = 0"
  by code_simp

lemma convert_small: "convertTo96Dpi sample_pdf (new_doc (Fin False 72)) (Fin False (5 / 256)) = Fin False (15 / 8)"
  by code_simp

section \<open>Properties of the registration functions\<close>

lemma registerBarcode_partial_symbol:
  "registerBarcode pdf (Some b) (Some e) s =
     Inr (CodeKind (Metadata b) @ Content b,
          (do_SetError pdf e s)\<lparr>barcodes := fmupd (CodeKind (Metadata b) @ Content b) (Some b) (barcodes s)\<rparr>)"
  by (simp add: registerBarcode_def Register_Some do_SetError_def)

lemma RegisterEAN_invalid_content_panics:
  "RegisterEAN sample_ext sample_pdf ''abc'' (initial_state (float64_const 1)) =
     Inl (NilPointerDereference,
          do_SetError sample_pdf (errors_New ''invalid ean code data'') (initial_state (float64_const 1)))"
  by (simp add: RegisterEAN_def sample_ext_def encode_if_def registerBarcode_def Register_None)

text \<open>
  C1. A registration whose encoder fails is meant to return a key all the same, with
  the error left in the document. The encoders return a nil symbol with their error,
  and for a nil symbol \<open>registerBarcode\<close> does call \<open>SetError\<close> but then panics in
  \<open>barcodeKey\<close>, which calls a method on the nil value: no key is returned and nothing
  is registered.
\<close>

theorem registerBarcode_nil_symbol_panics:
  "registerBarcode pdf None (Some e) s = Inl (NilPointerDereference, do_SetError pdf e s)"
  by (simp add: registerBarcode_def Register_None)

section \<open>Properties of the placement\<close>

text \<open>
  C9. A call of \<open>Barcode\<close> leaves the registry \<open>barcodes\<close> as it was, whatever the key,
  the coordinates, the sizes, the flow flag, the document and the library functions.
\<close>

theorem Barcode_keeps_registry:
  "barcodes (Barcode ext pdf code x y w h flow s) = barcodes s"
  by (simp add: Barcode_def Let_def registerScaledBarcode_def do_SetError_def do_Image_def
      do_RegisterImageReader_def split: option.splits prod.splits)

text \<open>
  C2, as stated, fails. Placing the registered QR symbol in a fresh document is a cache
  miss, and the format tag handed to \<open>RegisterImageReader\<close> and to \<open>Image\<close> is not
  one of a lossless format.
\<close>

theorem Barcode_format_tag_counterexample:
  "\<not> list_all spec_lossless_format
       (List.map_filter format_tag
          (new_calls (qr_registered (Fin False 1))
             (Barcode sample_ext sample_pdf ''QR Codegofpdf'' (Fin False 15) (Fin False 15)
                (Fin False 100) (Fin False 10) False (qr_registered (Fin False 1)))))"
proof -
  let ?s = "qr_registered (Fin False 1)"
  let ?u = "Some (symbol ''QR Code'' ''gofpdf'')"
  have 3: "barcode_Scale sample_ext ?u (target_px sample_ext sample_pdf ?s (Fin False 100))
             (target_px sample_ext sample_pdf ?s (Fin False 10)) = (?u, None)"
    by (simp add: target_px_sample convert_100 convert_10) (simp add: sample_ext_def)
  have 4: "jpeg_Encode sample_ext ?u = ([0xFF, 0xD8, 0xFF, 0xD9], None)"
    by (simp add: sample_ext_def)
  show ?thesis
    by (simp add: Barcode_miss_drawn [OF qr_registered_lookup qr_registered_fresh 3 4]
        do_Image_def do_RegisterImageReader_def List.map_filter_simps spec_lossless_format_def)
qed

text \<open>
  C2, amended. On a cache miss where the scaler and the JPEG encoder succeed, \<open>Barcode\<close>
  scales the symbol, encodes the scaled symbol with the JPEG encoder, registers those
  bytes with the document under the placement key with the format tag \<open>jpg\<close>, and draws
  with the same tag; \<open>jpg\<close> is a lossy format.
\<close>

theorem Barcode_miss_registers_jpeg:
  assumes "fmlookup (barcodes s) code = Some unscaled"
      and "GetImageInfo pdf (doc s) (uniqueBarcodeName ext code x y) = None"
      and "barcode_Scale ext unscaled (target_px ext pdf s w) (target_px ext pdf s h) = (bcode, None)"
      and "jpeg_Encode ext bcode = (buf, None)"
  shows "new_calls s (Barcode ext pdf code x y w h flow s) =
           [Scale_call unscaled (target_px ext pdf s w) (target_px ext pdf s h),
            jpeg_Encode_call bcode,
            RegisterImageReader_call (uniqueBarcodeName ext code x y) ''jpg'' buf,
            Image_call (uniqueBarcodeName ext code x y) x y (float64_const 0) (float64_const 0) flow ''jpg'' 0 []]
         \<and> List.map_filter format_tag (new_calls s (Barcode ext pdf code x y w h flow s)) = [''jpg'', ''jpg'']
         \<and> \<not> spec_lossless_format ''jpg''"
proof -
  have c: "new_calls s (Barcode ext pdf code x y w h flow s) =
           [Scale_call unscaled (target_px ext pdf s w) (target_px ext pdf s h),
            jpeg_Encode_call bcode,
            RegisterImageReader_call (uniqueBarcodeName ext code x y) ''jpg'' buf,
            Image_call (uniqueBarcodeName ext code x y) x y (float64_const 0) (float64_const 0) flow ''jpg'' 0 []]"
    using assms by (simp add: Barcode_miss_drawn do_Image_def do_RegisterImageReader_def)
  have "\<not> spec_lossless_format ''jpg''" by (simp add: spec_lossless_format_def)
  with c show ?thesis by (simp add: List.map_filter_simps)
qed

text \<open>The registered QR symbol, placed at (15, 15) with size 100 by 10 at unit ratio 1.\<close>

theorem Barcode_miss_registers_jpeg_witness:
  "fmlookup (barcodes (qr_registered (Fin False 1))) ''QR Codegofpdf'' = Some (Some (symbol ''QR Code'' ''gofpdf''))
   \<and> new_calls (qr_registered (Fin False 1))
        (Barcode sample_ext sample_pdf ''QR Codegofpdf'' (Fin False 15) (Fin False 15)
           (Fin False 100) (Fin False 10) False (qr_registered (Fin False 1))) =
      [Scale_call (Some (symbol ''QR Code'' ''gofpdf'')) 133 13,
       jpeg_Encode_call (Some (symbol ''QR Code'' ''gofpdf'')),
       RegisterImageReader_call ''barcode-QR Codegofpdf-1.5E+011.5E+01'' ''jpg'' [0xFF, 0xD8, 0xFF, 0xD9],
       Image_call ''barcode-QR Codegofpdf-1.5E+011.5E+01'' (Fin False 15) (Fin False 15)
         (float64_const 0) (float64_const 0) False ''jpg'' 0 []]"
proof -
  let ?s = "qr_registered (Fin False 1)"
  let ?u = "Some (symbol ''QR Code'' ''gofpdf'')"
  have 3: "barcode_Scale sample_ext ?u (target_px sample_ext sample_pdf ?s (Fin False 100))
             (target_px sample_ext sample_pdf ?s (Fin False 10)) = (?u, None)"
    by (simp add: target_px_sample convert_100 convert_10) (simp add: sample_ext_def)
  have 4: "jpeg_Encode sample_ext ?u = ([0xFF, 0xD8, 0xFF, 0xD9], None)"
    by (simp add: sample_ext_def)
  from Barcode_miss_registers_jpeg [where flow = False, OF qr_registered_lookup qr_registered_fresh 3 4]
  show ?thesis
    by (simp add: qr_registered_lookup name_15 target_px_sample convert_100 convert_10)
qed

text \<open>
  C3, as stated, fails: for the QR symbol with content \<open>gofpdf\<close> at (15, 15) the name is
  \<open>barcode-QR Codegofpdf-1.5E+011.5E+01\<close>, which is not \<open>barcode-\<close>, the content and
  the two numbers; nor is the name made from the bare content.
\<close>

theorem placement_key_counterexample:
  "uniqueBarcodeName sample_ext ''QR Codegofpdf'' (Fin False 15) (Fin False 15) \<noteq>
     ''barcode-'' @ ''gofpdf'' @ FormatFloat_E sample_ext (Fin False 15) @ FormatFloat_E sample_ext (Fin False 15)
   \<and> uniqueBarcodeName sample_ext ''gofpdf'' (Fin False 15) (Fin False 15) \<noteq>
     ''barcode-'' @ ''gofpdf'' @ FormatFloat_E sample_ext (Fin False 15) @ FormatFloat_E sample_ext (Fin False 15)"
proof -
  have "FormatFloat_E sample_ext (Fin False 15) = ''1.5E+01''"
    unfolding sample_ext_def by (simp, code_simp)
  then show ?thesis by (simp add: name_15)
qed

text \<open>
  C3, amended. The placement key is \<open>barcode-\<close>, the code passed to \<open>Barcode\<close>, a
  hyphen, and \<open>x\<close> and \<open>y\<close> as \<open>strconv.FormatFloat\<close> writes them in format \<open>E\<close> with
  the fewest digits; it never equals the form without the hyphen. The code is the
  registry key, which for a registered symbol is its kind followed by its content.
  Every image name that a call of \<open>Barcode\<close> hands to the document is this key.
\<close>

theorem placement_key_shape:
  "uniqueBarcodeName ext code x y = ''barcode-'' @ code @ ''-'' @ FormatFloat_E ext x @ FormatFloat_E ext y
   \<and> uniqueBarcodeName ext code x y \<noteq> ''barcode-'' @ code @ FormatFloat_E ext x @ FormatFloat_E ext y
   \<and> key_of (Register (Some b) s) = Some (CodeKind (Metadata b) @ Content b)
   \<and> List.map_filter image_name (new_calls s (Barcode ext pdf code x y w h flow s))
        \<in> {[], [uniqueBarcodeName ext code x y], [uniqueBarcodeName ext code x y, uniqueBarcodeName ext code x y]}"
proof -
  have 1: "uniqueBarcodeName ext code x y = ''barcode-'' @ code @ ''-'' @ FormatFloat_E ext x @ FormatFloat_E ext y"
    by (simp add: uniqueBarcodeName_def)
  have "''-'' @ FormatFloat_E ext x @ FormatFloat_E ext y \<noteq> FormatFloat_E ext x @ FormatFloat_E ext y"
    by (metis append_Cons append_Nil length_Cons n_not_Suc_n)
  then have 2: "uniqueBarcodeName ext code x y \<noteq> ''barcode-'' @ code @ FormatFloat_E ext x @ FormatFloat_E ext y"
    unfolding 1 by simp
  have 3: "key_of (Register (Some b) s) = Some (CodeKind (Metadata b) @ Content b)"
    by (simp add: Register_Some)
  have 4: "List.map_filter image_name (new_calls s (Barcode ext pdf code x y w h flow s))
        \<in> {[], [uniqueBarcodeName ext code x y], [uniqueBarcodeName ext code x y, uniqueBarcodeName ext code x y]}"
    using Barcode_calls_cases [of s ext pdf code x y w h flow]
    by (auto simp add: List.map_filter_simps)
  from 1 2 3 4 show ?thesis by blast
qed

text \<open>
  C4, as stated, fails. The QR and the Code 128 encodings of the content \<open>gofpdf\<close> are
  registered under the keys \<open>QR Codegofpdf\<close> and \<open>Code 128gofpdf\<close>, and placing them
  at the same point (15, 15) derives two different placement keys.
\<close>

theorem two_symbologies_counterexample:
  "key_of (RegisterQR sample_ext sample_pdf ''gofpdf'' qr_M qr_Auto (initial_state (Fin False 1)))
     = Some ''QR Codegofpdf''
   \<and> key_of (RegisterCode128 sample_ext sample_pdf ''gofpdf'' (qr_registered (Fin False 1)))
     = Some ''Code 128gofpdf''
   \<and> uniqueBarcodeName sample_ext ''QR Codegofpdf'' (Fin False 15) (Fin False 15)
     \<noteq> uniqueBarcodeName sample_ext ''Code 128gofpdf'' (Fin False 15) (Fin False 15)"
  by (simp add: RegisterQR_def RegisterCode128_def sample_ext_def encode_if_def registerBarcode_def
      Register_Some symbol_def uniqueBarcodeName_def)

text \<open>
  C4, amended. For two symbols of different symbology kinds with the same content,
  registered one after the other, the registry keys differ, both symbols stay
  registered, and placing them at the same (x, y) derives different placement keys:
  the placement key contains the registry key, which starts with the kind.
\<close>

theorem two_symbologies_distinct_keys:
  assumes "CodeKind (Metadata b1) \<noteq> CodeKind (Metadata b2)"
      and "Content b1 = Content b2"
  shows "\<exists>k1 k2 s1 s2.
           Register (Some b1) s = Inr (k1, s1) \<and> Register (Some b2) s1 = Inr (k2, s2)
           \<and> k1 \<noteq> k2
           \<and> uniqueBarcodeName ext k1 x y \<noteq> uniqueBarcodeName ext k2 x y
           \<and> fmlookup (barcodes s2) k1 = Some (Some b1)
           \<and> fmlookup (barcodes s2) k2 = Some (Some b2)"
proof -
  let ?k1 = "CodeKind (Metadata b1) @ Content b1"
  let ?k2 = "CodeKind (Metadata b2) @ Content b2"
  from assms have ne: "?k1 \<noteq> ?k2" by simp
  then have "uniqueBarcodeName ext ?k1 x y \<noteq> uniqueBarcodeName ext ?k2 x y"
    using assms by (simp add: uniqueBarcodeName_def)
  with ne show ?thesis by (simp add: Register_Some)
qed

text \<open>The QR and the Code 128 symbol with content \<open>gofpdf\<close>.\<close>

theorem two_symbologies_distinct_keys_witness:
  "CodeKind (Metadata (symbol ''QR Code'' ''gofpdf'')) \<noteq> CodeKind (Metadata (symbol ''Code 128'' ''gofpdf''))
   \<and> Content (symbol ''QR Code'' ''gofpdf'') = Content (symbol ''Code 128'' ''gofpdf'')
   \<and> (\<exists>s1 s2.
         Register (Some (symbol ''QR Code'' ''gofpdf'')) (initial_state (Fin False 1)) = Inr (''QR Codegofpdf'', s1)
         \<and> Register (Some (symbol ''Code 128'' ''gofpdf'')) s1 = Inr (''Code 128gofpdf'', s2)
         \<and> uniqueBarcodeName sample_ext ''QR Codegofpdf'' (Fin False 15) (Fin False 15)
           \<noteq> uniqueBarcodeName sample_ext ''Code 128gofpdf'' (Fin False 15) (Fin False 15)
         \<and> fmlookup (barcodes s2) ''QR Codegofpdf'' = Some (Some (symbol ''QR Code'' ''gofpdf''))
         \<and> fmlookup (barcodes s2) ''Code 128gofpdf'' = Some (Some (symbol ''Code 128'' ''gofpdf'')))"
proof -
  have 1: "CodeKind (Metadata (symbol ''QR Code'' ''gofpdf'')) \<noteq> CodeKind (Metadata (symbol ''Code 128'' ''gofpdf''))"
    by (simp add: symbol_def)
  have 2: "Content (symbol ''QR Code'' ''gofpdf'') = Content (symbol ''Code 128'' ''gofpdf'')"
    by (simp add: symbol_def)
  from two_symbologies_distinct_keys [OF 1 2, of "initial_state (Fin False 1)" sample_ext "Fin False 15" "Fin False 15"]
  obtain k1 k2 s1 s2 where
    r: "Register (Some (symbol ''QR Code'' ''gofpdf'')) (initial_state (Fin False 1)) = Inr (k1, s1)"
       "Register (Some (symbol ''Code 128'' ''gofpdf'')) s1 = Inr (k2, s2)"
       "uniqueBarcodeName sample_ext k1 (Fin False 15) (Fin False 15) \<noteq> uniqueBarcodeName sample_ext k2 (Fin False 15) (Fin False 15)"
       "fmlookup (barcodes s2) k1 = Some (Some (symbol ''QR Code'' ''gofpdf''))"
       "fmlookup (barcodes s2) k2 = Some (Some (symbol ''Code 128'' ''gofpdf''))"
    by blast
  from r(1) have k1: "k1 = ''QR Codegofpdf''" by (simp add: Register_Some symbol_def)
  from r(2) have k2: "k2 = ''Code 128gofpdf''" by (simp add: Register_Some symbol_def)
  from r 1 2 show ?thesis unfolding k1 k2 by blast
qed

text \<open>
  C5. A registered key is placed twice at the same (x, y), with sizes (w, h) and then
  (w', h'). The first call misses the cache, scales and encodes; the document then
  reports the image under the placement key. The two calls together make one call of
  the scaler, one of the JPEG encoder, one of \<open>RegisterImageReader\<close> (all in the first
  call, with the first sizes) and two of \<open>Image\<close>; the second call only draws.
\<close>

theorem Barcode_twice_one_raster:
  assumes "fmlookup (barcodes s) code = Some unscaled"
      and "GetImageInfo pdf (doc s) (uniqueBarcodeName ext code x y) = None"
      and "barcode_Scale ext unscaled (target_px ext pdf s w) (target_px ext pdf s h) = (bcode, None)"
      and "jpeg_Encode ext bcode = (buf, None)"
      and "GetImageInfo pdf (doc (Barcode ext pdf code x y w h flow s)) (uniqueBarcodeName ext code x y) \<noteq> None"
  shows "new_calls s (Barcode ext pdf code x y w' h' flow' (Barcode ext pdf code x y w h flow s)) =
           [Scale_call unscaled (target_px ext pdf s w) (target_px ext pdf s h),
            jpeg_Encode_call bcode,
            RegisterImageReader_call (uniqueBarcodeName ext code x y) ''jpg'' buf,
            Image_call (uniqueBarcodeName ext code x y) x y (float64_const 0) (float64_const 0) flow ''jpg'' 0 [],
            Image_call (uniqueBarcodeName ext code x y) x y (float64_const 0) (float64_const 0) flow' ''jpg'' 0 []]
         \<and> length (filter is_rasterization
               (new_calls s (Barcode ext pdf code x y w' h' flow' (Barcode ext pdf code x y w h flow s)))) = 2
         \<and> length (filter is_RegisterImageReader_call
               (new_calls s (Barcode ext pdf code x y w' h' flow' (Barcode ext pdf code x y w h flow s)))) = 1
         \<and> length (filter is_Image_call
               (new_calls s (Barcode ext pdf code x y w' h' flow' (Barcode ext pdf code x y w h flow s)))) = 2"
proof -
  let ?s1 = "Barcode ext pdf code x y w h flow s"
  have first: "calls ?s1 = calls s @
           [Scale_call unscaled (target_px ext pdf s w) (target_px ext pdf s h),
            jpeg_Encode_call bcode,
            RegisterImageReader_call (uniqueBarcodeName ext code x y) ''jpg'' buf,
            Image_call (uniqueBarcodeName ext code x y) x y (float64_const 0) (float64_const 0) flow ''jpg'' 0 []]"
    using assms(1-4) by (simp add: Barcode_miss_drawn do_Image_def do_RegisterImageReader_def)
  have "barcodes ?s1 = barcodes s"
    by (simp add: Barcode_def Let_def registerScaledBarcode_def do_SetError_def do_Image_def
        do_RegisterImageReader_def split: option.splits prod.splits)
  with assms(1) have reg: "fmlookup (barcodes ?s1) code = Some unscaled" by simp
  have "Barcode ext pdf code x y w' h' flow' ?s1 =
          do_Image pdf (uniqueBarcodeName ext code x y) x y (float64_const 0) (float64_const 0) flow' ''jpg'' 0 [] ?s1"
    using reg assms(5) by (rule Barcode_hit)
  then have "calls (Barcode ext pdf code x y w' h' flow' ?s1) = calls ?s1 @
          [Image_call (uniqueBarcodeName ext code x y) x y (float64_const 0) (float64_const 0) flow' ''jpg'' 0 []]"
    by (simp add: do_Image_def)
  with first have "new_calls s (Barcode ext pdf code x y w' h' flow' ?s1) =
           [Scale_call unscaled (target_px ext pdf s w) (target_px ext pdf s h),
            jpeg_Encode_call bcode,
            RegisterImageReader_call (uniqueBarcodeName ext code x y) ''jpg'' buf,
            Image_call (uniqueBarcodeName ext code x y) x y (float64_const 0) (float64_const 0) flow ''jpg'' 0 [],
            Image_call (uniqueBarcodeName ext code x y) x y (float64_const 0) (float64_const 0) flow' ''jpg'' 0 []]"
    by simp
  then show ?thesis by simp
qed

text \<open>The registered QR symbol placed at (15, 15), first 100 by 10, then 10 by 100.\<close>

theorem Barcode_twice_one_raster_witness:
  "new_calls (qr_registered (Fin False 1))
     (Barcode sample_ext sample_pdf ''QR Codegofpdf'' (Fin False 15) (Fin False 15) (Fin False 10) (Fin False 100) True
        (Barcode sample_ext sample_pdf ''QR Codegofpdf'' (Fin False 15) (Fin False 15) (Fin False 100) (Fin False 10) False
           (qr_registered (Fin False 1)))) =
      [Scale_call (Some (symbol ''QR Code'' ''gofpdf'')) 133 13,
       jpeg_Encode_call (Some (symbol ''QR Code'' ''gofpdf'')),
       RegisterImageReader_call ''barcode-QR Codegofpdf-1.5E+011.5E+01'' ''jpg'' [0xFF, 0xD8, 0xFF, 0xD9],
       Image_call ''barcode-QR Codegofpdf-1.5E+011.5E+01'' (Fin False 15) (Fin False 15)
         (float64_const 0) (float64_const 0) False ''jpg'' 0 [],
       Image_call ''barcode-QR Codegofpdf-1.5E+011.5E+01'' (Fin False 15) (Fin False 15)
         (float64_const 0) (float64_const 0) True ''jpg'' 0 []]"
proof -
  let ?s = "qr_registered (Fin False 1)"
  let ?u = "Some (symbol ''QR Code'' ''gofpdf'')"
  have 3: "barcode_Scale sample_ext ?u (target_px sample_ext sample_pdf ?s (Fin False 100))
             (target_px sample_ext sample_pdf ?s (Fin False 10)) = (?u, None)"
    by (simp add: target_px_sample convert_100 convert_10) (simp add: sample_ext_def)
  have 4: "jpeg_Encode sample_ext ?u = ([0xFF, 0xD8, 0xFF, 0xD9], None)"
    by (simp add: sample_ext_def)
  have 5: "GetImageInfo sample_pdf
             (doc (Barcode sample_ext sample_pdf ''QR Codegofpdf'' (Fin False 15) (Fin False 15) (Fin False 100) (Fin False 10) False ?s))
             (uniqueBarcodeName sample_ext ''QR Codegofpdf'' (Fin False 15) (Fin False 15)) \<noteq> None"
    by (subst Barcode_miss_drawn [OF qr_registered_lookup qr_registered_fresh 3 4])
       (simp add: do_Image_def do_RegisterImageReader_def sample_pdf_def)
  from Barcode_twice_one_raster [where w' = "Fin False 10" and h' = "Fin False 100" and flow' = True,
      OF qr_registered_lookup qr_registered_fresh 3 4 5]
  show ?thesis
    by (simp add: name_15 target_px_sample convert_100 convert_10)
qed

text \<open>
  C6. A call of \<open>Barcode\<close> fails in three ways: the key is not registered; the scaler
  returns an error; \<open>registerScaledBarcode\<close> returns an error (that of the JPEG
  encoder). In each the error is passed to \<open>SetError\<close>, and that is the last call:
  \<open>Image\<close> is not called, nor is \<open>RegisterImageReader\<close>; when the key is not
  registered \<open>SetError\<close> is the only call.
\<close>

theorem Barcode_failure_reported:
  "(fmlookup (barcodes s) code = None \<longrightarrow>
      Barcode ext pdf code x y w h flow s =
        s\<lparr>doc := SetError pdf (doc s) (errors_New ''Barcode not found''),
          calls := calls s @ [SetError_call (errors_New ''Barcode not found'')]\<rparr>)
   \<and> (fmlookup (barcodes s) code = Some unscaled
        \<and> GetImageInfo pdf (doc s) (uniqueBarcodeName ext code x y) = None
        \<and> barcode_Scale ext unscaled (target_px ext pdf s w) (target_px ext pdf s h) = (bcode, Some e) \<longrightarrow>
      Barcode ext pdf code x y w h flow s =
        s\<lparr>doc := SetError pdf (doc s) e,
          calls := calls s @ [Scale_call unscaled (target_px ext pdf s w) (target_px ext pdf s h),
                              SetError_call e]\<rparr>)
   \<and> (fmlookup (barcodes s) code = Some unscaled
        \<and> GetImageInfo pdf (doc s) (uniqueBarcodeName ext code x y) = None
        \<and> barcode_Scale ext unscaled (target_px ext pdf s w) (target_px ext pdf s h) = (bcode, None)
        \<and> jpeg_Encode ext bcode = (buf, Some e) \<longrightarrow>
      Barcode ext pdf code x y w h flow s =
        s\<lparr>doc := SetError pdf (doc s) e,
          calls := calls s @ [Scale_call unscaled (target_px ext pdf s w) (target_px ext pdf s h),
                              jpeg_Encode_call bcode, SetError_call e]\<rparr>)"
  by (simp add: Barcode_not_found Barcode_scale_error Barcode_encode_error do_SetError_def)

text \<open>
  A key placed before it is registered; a registered symbol asked for at width 0, which
  the scaler refuses; a registered symbol with a JPEG encoder that fails.
\<close>

theorem Barcode_failure_reported_witness:
  "Barcode sample_ext sample_pdf ''QR Codegofpdf'' (Fin False 15) (Fin False 15) (Fin False 100) (Fin False 10) False
       (initial_state (Fin False 1)) =
     (initial_state (Fin False 1))
       \<lparr>doc := (new_doc (Fin False 1))\<lparr>err_slot := Some (errors_New ''Barcode not found'')\<rparr>,
        calls := [SetError_call (errors_New ''Barcode not found'')]\<rparr>
   \<and> Barcode sample_ext sample_pdf ''QR Codegofpdf'' (Fin False 15) (Fin False 15) (Fin False 0) (Fin False 10) False
       (qr_registered (Fin False 1)) =
     (qr_registered (Fin False 1))
       \<lparr>doc := (new_doc (Fin False 1))
                 \<lparr>err_slot := Some (errors_New ''can not scale barcode to an image smaller than 1x1'')\<rparr>,
        calls := [Scale_call (Some (symbol ''QR Code'' ''gofpdf'')) 0 13,
                  SetError_call (errors_New ''can not scale barcode to an image smaller than 1x1'')]\<rparr>
   \<and> Barcode jpeg_failing_ext sample_pdf ''QR Codegofpdf'' (Fin False 15) (Fin False 15) (Fin False 100) (Fin False 10) False
       (qr_registered (Fin False 1)) =
     (qr_registered (Fin False 1))
       \<lparr>doc := (new_doc (Fin False 1))\<lparr>err_slot := Some (errors_New ''jpeg: image is too large to encode'')\<rparr>,
        calls := [Scale_call (Some (symbol ''QR Code'' ''gofpdf'')) 133 13,
                  jpeg_Encode_call (Some (symbol ''QR Code'' ''gofpdf'')),
                  SetError_call (errors_New ''jpeg: image is too large to encode'')]\<rparr>"
proof -
  let ?s = "qr_registered (Fin False 1)"
  let ?u = "Some (symbol ''QR Code'' ''gofpdf'')"
  let ?e1 = "errors_New ''can not scale barcode to an image smaller than 1x1''"
  let ?e2 = "errors_New ''jpeg: image is too large to encode''"
  have a: "fmlookup (barcodes (initial_state (Fin False 1))) ''QR Codegofpdf'' = None"
    by (simp add: initial_state_def)
  have b: "barcode_Scale sample_ext ?u (target_px sample_ext sample_pdf ?s (Fin False 0))
             (target_px sample_ext sample_pdf ?s (Fin False 10)) = (None, Some ?e1)"
    by (simp add: target_px_sample convert_0 convert_10) (simp add: sample_ext_def)
  have c: "barcode_Scale jpeg_failing_ext ?u (target_px jpeg_failing_ext sample_pdf ?s (Fin False 100))
             (target_px jpeg_failing_ext sample_pdf ?s (Fin False 10)) = (?u, None)"
    by (simp add: target_px_sample convert_100 convert_10) (simp add: jpeg_failing_ext_def sample_ext_def)
  have d: "jpeg_Encode jpeg_failing_ext ?u = ([], Some ?e2)"
    by (simp add: jpeg_failing_ext_def)
  have sd: "\<And>d e. SetError sample_pdf d e = d\<lparr>err_slot := Some e\<rparr>"
    by (simp add: sample_pdf_def)
  have ds: "doc ?s = new_doc (Fin False 1)" "calls ?s = []"
    by (simp_all add: qr_registered_eq)
  have di: "doc (initial_state (Fin False 1)) = new_doc (Fin False 1)" "calls (initial_state (Fin False 1)) = []"
    by (simp_all add: initial_state_def)
  have 1: "Barcode sample_ext sample_pdf ''QR Codegofpdf'' (Fin False 15) (Fin False 15) (Fin False 100) (Fin False 10) False
       (initial_state (Fin False 1)) =
     (initial_state (Fin False 1))
       \<lparr>doc := (new_doc (Fin False 1))\<lparr>err_slot := Some (errors_New ''Barcode not found'')\<rparr>,
        calls := [SetError_call (errors_New ''Barcode not found'')]\<rparr>"
    using Barcode_failure_reported [where s = "initial_state (Fin False 1)" and pdf = sample_pdf,
        THEN conjunct1, THEN mp, OF a]
    by (simp add: sd di)
  have hb: "fmlookup (barcodes ?s) ''QR Codegofpdf'' = Some ?u
        \<and> GetImageInfo sample_pdf (doc ?s)
            (uniqueBarcodeName sample_ext ''QR Codegofpdf'' (Fin False 15) (Fin False 15)) = None
        \<and> barcode_Scale sample_ext ?u (target_px sample_ext sample_pdf ?s (Fin False 0))
             (target_px sample_ext sample_pdf ?s (Fin False 10)) = (None, Some ?e1)"
    using qr_registered_lookup qr_registered_fresh b by blast
  have 2: "Barcode sample_ext sample_pdf ''QR Codegofpdf'' (Fin False 15) (Fin False 15) (Fin False 0) (Fin False 10) False ?s =
     ?s\<lparr>doc := (new_doc (Fin False 1))\<lparr>err_slot := Some ?e1\<rparr>,
        calls := [Scale_call ?u 0 13, SetError_call ?e1]\<rparr>"
    using Barcode_failure_reported [THEN conjunct2, THEN conjunct1, THEN mp, OF hb, of False]
    by (simp add: sd ds target_px_sample convert_0 convert_10)
  have hc: "fmlookup (barcodes ?s) ''QR Codegofpdf'' = Some ?u
        \<and> GetImageInfo sample_pdf (doc ?s)
            (uniqueBarcodeName jpeg_failing_ext ''QR Codegofpdf'' (Fin False 15) (Fin False 15)) = None
        \<and> barcode_Scale jpeg_failing_ext ?u (target_px jpeg_failing_ext sample_pdf ?s (Fin False 100))
             (target_px jpeg_failing_ext sample_pdf ?s (Fin False 10)) = (?u, None)
        \<and> jpeg_Encode jpeg_failing_ext ?u = ([], Some ?e2)"
    using qr_registered_lookup qr_registered_fresh c d by blast
  have 3: "Barcode jpeg_failing_ext sample_pdf ''QR Codegofpdf'' (Fin False 15) (Fin False 15) (Fin False 100) (Fin False 10) False ?s =
     ?s\<lparr>doc := (new_doc (Fin False 1))\<lparr>err_slot := Some ?e2\<rparr>,
        calls := [Scale_call ?u 133 13, jpeg_Encode_call ?u, SetError_call ?e2]\<rparr>"
    using Barcode_failure_reported [THEN conjunct2, THEN conjunct2, THEN mp, OF hc, of False]
    by (simp add: sd ds target_px_sample convert_100 convert_10)
  from 1 2 3 show ?thesis by blast
qed

section \<open>Properties of the unit conversion\<close>

lemma convert_72_at_1:
  "float64_mul (float64_div (float64_mul (Fin False 72) (Fin False 1)) (float64_const 72)) (float64_const 96) = Fin False 96"
  by code_simp

lemma convert_36_at_2:
  "float64_mul (float64_div (float64_mul (Fin False 36) (Fin False 2)) (float64_const 72)) (float64_const 96) = Fin False 96"
  by code_simp

text \<open>
  C7. \<open>convertTo96Dpi\<close> is \<open>value * ratio / 72 * 96\<close> in float64 arithmetic, taken left to
  right, where \<open>ratio\<close> is what \<open>GetConversionRatio\<close> returns; its result depends on the
  document through that ratio alone, and it changes nothing. At ratio 1.0 the value 72
  gives exactly 96.0, and at ratio 2.0 the value 36 gives exactly 96.0.
\<close>

theorem convertTo96Dpi_exact:
  "convertTo96Dpi pdf d v =
     float64_mul (float64_div (float64_mul v (GetConversionRatio pdf d)) (float64_const 72)) (float64_const 96)
   \<and> (GetConversionRatio pdf d = GetConversionRatio pdf' d' \<longrightarrow>
        convertTo96Dpi pdf d v = convertTo96Dpi pdf' d' v)
   \<and> (GetConversionRatio pdf d = Fin False 1 \<longrightarrow> convertTo96Dpi pdf d (Fin False 72) = Fin False 96)
   \<and> (GetConversionRatio pdf d = Fin False 2 \<longrightarrow> convertTo96Dpi pdf d (Fin False 36) = Fin False 96)"
  by (simp add: convertTo96Dpi_def convert_72_at_1 convert_36_at_2 del: float64_mul.simps float64_div.simps)

text \<open>Documents of ratio 1 and 2, and a document of ratio 2 that differs in what was drawn.\<close>

theorem convertTo96Dpi_exact_witness:
  "convertTo96Dpi sample_pdf (new_doc (Fin False 1)) (Fin False 72) = Fin False 96
   \<and> convertTo96Dpi sample_pdf (new_doc (Fin False 2)) (Fin False 36) = Fin False 96
   \<and> convertTo96Dpi sample_pdf (new_doc (Fin False 2)) (Fin False 36) =
       convertTo96Dpi sample_pdf ((new_doc (Fin False 2))\<lparr>drawn := [''a'']\<rparr>) (Fin False 36)"
proof -
  have r: "\<And>k. GetConversionRatio sample_pdf (new_doc k) = k"
    by (simp add: sample_pdf_def new_doc_def)
  have r': "GetConversionRatio sample_pdf (new_doc (Fin False 2)) =
            GetConversionRatio sample_pdf ((new_doc (Fin False 2))\<lparr>drawn := [''a'']\<rparr>)"
    by (simp add: sample_pdf_def new_doc_def)
  have 1: "convertTo96Dpi sample_pdf (new_doc (Fin False 1)) (Fin False 72) = Fin False 96"
    using convertTo96Dpi_exact [THEN conjunct2, THEN conjunct2, THEN conjunct1, THEN mp, OF r] .
  have 2: "convertTo96Dpi sample_pdf (new_doc (Fin False 2)) (Fin False 36) = Fin False 96"
    using convertTo96Dpi_exact [THEN conjunct2, THEN conjunct2, THEN conjunct2, THEN mp, OF r] .
  have 3: "convertTo96Dpi sample_pdf (new_doc (Fin False 2)) (Fin False 36) =
       convertTo96Dpi sample_pdf ((new_doc (Fin False 2))\<lparr>drawn := [''a'']\<rparr>) (Fin False 36)"
    using convertTo96Dpi_exact [THEN conjunct2, THEN conjunct1, THEN mp, OF r'] .
  from 1 2 3 show ?thesis by blast
qed

text \<open>Where \<open>int(f)\<close> is defined by the language it is the truncation toward zero.\<close>

lemma trunc_toward_zero_bounds:
  "\<bar>v - of_int (trunc_toward_zero v)\<bar> < 1 \<and> \<bar>of_int (trunc_toward_zero v)\<bar> \<le> \<bar>v\<bar>"
  unfolding trunc_toward_zero_def by (simp; linarith)

lemma float64_to_int_representable:
  "int_representable f \<Longrightarrow> float64_to_int impl f = trunc_toward_zero (float64_value f)"
proof (cases f)
  case (Fin s q)
  assume "int_representable f"
  with Fin have q: "0 \<le> q" "\<lfloor>q\<rfloor> < 2 ^ 63" by (simp_all add: int_representable_def)
  define m where "m = \<lfloor>q\<rfloor>"
  from q have m: "0 \<le> m" "m < 2 ^ 63" by (simp_all add: m_def)
  have "trunc_toward_zero (float64_value f) = (if s then - m else m)"
    using Fin q(1) by (auto simp add: trunc_toward_zero_def ceiling_minus m_def)
  moreover have "float64_to_int impl f =
      (let n = (if s then - m else m) in if - (2 ^ 63) \<le> n \<and> n < 2 ^ 63 then n else impl f)"
    unfolding float64_to_int_def Fin m_def by simp
  then have "float64_to_int impl f = (if s then - m else m)"
    using m by (cases s) (simp_all add: Let_def)
  ultimately show ?thesis by simp
qed (simp_all add: int_representable_def)

text \<open>
  C10. On a cache miss the first call is that of the scaler, for the registered symbol
  and the pixel sizes \<open>int(convertTo96Dpi(pdf, w))\<close> and \<open>int(convertTo96Dpi(pdf, h))\<close>.
  Where the converted sizes are numbers within the range of \<open>int\<close>, these are their
  truncations toward zero: never larger in magnitude than the converted size, and less
  than one pixel away from it.
\<close>

theorem Barcode_scales_to_truncated_size:
  assumes "fmlookup (barcodes s) code = Some unscaled"
      and "GetImageInfo pdf (doc s) (uniqueBarcodeName ext code x y) = None"
      and "int_representable (convertTo96Dpi pdf (doc s) w)"
      and "int_representable (convertTo96Dpi pdf (doc s) h)"
  shows "(\<exists>rest. new_calls s (Barcode ext pdf code x y w h flow s) =
            Scale_call unscaled
              (trunc_toward_zero (float64_value (convertTo96Dpi pdf (doc s) w)))
              (trunc_toward_zero (float64_value (convertTo96Dpi pdf (doc s) h))) # rest)
         \<and> \<bar>float64_value (convertTo96Dpi pdf (doc s) w)
              - of_int (trunc_toward_zero (float64_value (convertTo96Dpi pdf (doc s) w)))\<bar> < 1
         \<and> \<bar>float64_value (convertTo96Dpi pdf (doc s) h)
              - of_int (trunc_toward_zero (float64_value (convertTo96Dpi pdf (doc s) h)))\<bar> < 1
         \<and> \<bar>rat_of_int (trunc_toward_zero (float64_value (convertTo96Dpi pdf (doc s) w)))\<bar>
              \<le> \<bar>float64_value (convertTo96Dpi pdf (doc s) w)\<bar>
         \<and> \<bar>rat_of_int (trunc_toward_zero (float64_value (convertTo96Dpi pdf (doc s) h)))\<bar>
              \<le> \<bar>float64_value (convertTo96Dpi pdf (doc s) h)\<bar>"
proof -
  have w: "target_px ext pdf s w = trunc_toward_zero (float64_value (convertTo96Dpi pdf (doc s) w))"
    unfolding target_px_def using assms(3) by (rule float64_to_int_representable)
  have h: "target_px ext pdf s h = trunc_toward_zero (float64_value (convertTo96Dpi pdf (doc s) h))"
    unfolding target_px_def using assms(4) by (rule float64_to_int_representable)
  have "\<exists>rest. new_calls s (Barcode ext pdf code x y w h flow s) =
          Scale_call unscaled (target_px ext pdf s w) (target_px ext pdf s h) # rest"
  proof -
    obtain bcode err where sc: "barcode_Scale ext unscaled (target_px ext pdf s w) (target_px ext pdf s h) = (bcode, err)"
      by (cases "barcode_Scale ext unscaled (target_px ext pdf s w) (target_px ext pdf s h)")
    obtain buf err2 where je: "jpeg_Encode ext bcode = (buf, err2)"
      by (cases "jpeg_Encode ext bcode")
    show ?thesis
    proof (cases err)
      case (Some e)
      with assms(1,2) sc show ?thesis by (simp add: Barcode_scale_error do_SetError_def)
    next
      case None
      show ?thesis
      proof (cases err2)
        case (Some e)
        with assms(1,2) sc None je show ?thesis by (simp add: Barcode_encode_error do_SetError_def)
      next
        case None2: None
        with assms(1,2) sc None je show ?thesis
          by (simp add: Barcode_miss_drawn do_Image_def do_RegisterImageReader_def)
      qed
    qed
  qed
  with w h show ?thesis using trunc_toward_zero_bounds by simp
qed

text \<open>
  At ratio 72 the size 5/256 converts to 1.875 pixels; the scaler is asked for 1 pixel,
  not for the nearest whole number 2.
\<close>

theorem Barcode_scales_to_truncated_size_witness:
  "convertTo96Dpi sample_pdf (doc (qr_registered (Fin False 72))) (Fin False (5 / 256)) = Fin False (15 / 8)
   \<and> (\<exists>rest. new_calls (qr_registered (Fin False 72))
          (Barcode sample_ext sample_pdf ''QR Codegofpdf'' (Fin False 15) (Fin False 15)
             (Fin False (5 / 256)) (Fin False (5 / 256)) False (qr_registered (Fin False 72))) =
        Scale_call (Some (symbol ''QR Code'' ''gofpdf'')) 1 1 # rest)"
proof -
  let ?s = "qr_registered (Fin False 72)"
  have c: "convertTo96Dpi sample_pdf (doc ?s) (Fin False (5 / 256)) = Fin False (15 / 8)"
    by (simp add: qr_registered_eq convert_small)
  have r: "int_representable (convertTo96Dpi sample_pdf (doc ?s) (Fin False (5 / 256)))"
    unfolding c by (simp add: int_representable_def)
  have t: "trunc_toward_zero (15 / 8) = 1"
    by code_simp
  from Barcode_scales_to_truncated_size [where flow = False, OF qr_registered_lookup qr_registered_fresh r r]
  have "\<exists>rest. new_calls ?s
          (Barcode sample_ext sample_pdf ''QR Codegofpdf'' (Fin False 15) (Fin False 15)
             (Fin False (5 / 256)) (Fin False (5 / 256)) False ?s) =
        Scale_call (Some (symbol ''QR Code'' ''gofpdf'')) 1 1 # rest"
    unfolding c by (simp add: t)
  with c show ?thesis by blast
qed

section \<open>Properties of the registry\<close>

text \<open>
  Registering symbols in a row never panics, leaves the document alone, and adds to the
  keys of the registry the keys of the symbols.
\<close>

lemma Register_each_Some:
  "\<exists>s'. Register_each (map Some bs) s = Inr s'
        \<and> doc s' = doc s \<and> calls s' = calls s
        \<and> fmdom (barcodes s') = fmdom (barcodes s) |\<union>| fset_of_list (map (\<lambda>b. CodeKind (Metadata b) @ Content b) bs)"
proof (induction bs arbitrary: s)
  case Nil
  then show ?case by simp
next
  case (Cons b bs)
  let ?s1 = "s\<lparr>barcodes := fmupd (CodeKind (Metadata b) @ Content b) (Some b) (barcodes s)\<rparr>"
  from Cons.IH [of ?s1] obtain s' where
    "Register_each (map Some bs) ?s1 = Inr s'" "doc s' = doc s" "calls s' = calls s"
    "fmdom (barcodes s') = fmdom (barcodes ?s1) |\<union>| fset_of_list (map (\<lambda>b. CodeKind (Metadata b) @ Content b) bs)"
    by auto
  then show ?case by (auto simp add: Register_Some)
qed

lemma Register_each_card:
  "\<exists>s'. Register_each (map Some bs) s = Inr s'
        \<and> fcard (fmdom (barcodes s')) \<le>
            fcard (fmdom (barcodes s)) + card ((\<lambda>b. (CodeKind (Metadata b), Content b)) ` set bs)"
proof -
  let ?key = "\<lambda>b. CodeKind (Metadata b) @ Content b"
  let ?pair = "\<lambda>b. (CodeKind (Metadata b), Content b)"
  from Register_each_Some [of bs s] obtain s' where
    r: "Register_each (map Some bs) s = Inr s'"
    and d: "fmdom (barcodes s') = fmdom (barcodes s) |\<union>| fset_of_list (map ?key bs)"
    by blast
  have "fcard (fmdom (barcodes s')) \<le> fcard (fmdom (barcodes s)) + fcard (fset_of_list (map ?key bs))"
    unfolding d using fcard_funion_finter [of "fmdom (barcodes s)" "fset_of_list (map ?key bs)"] by simp
  also have "fcard (fset_of_list (map ?key bs)) = card (?key ` set bs)"
    by (simp add: fcard.rep_eq fset_of_list.rep_eq)
  also have "?key ` set bs = (\<lambda>(k, c). k @ c) ` (?pair ` set bs)"
    by (simp add: image_image)
  also have "card \<dots> \<le> card (?pair ` set bs)"
    by (rule card_image_le) simp
  finally show ?thesis using r by auto
qed

text \<open>
  C8. Registering a symbol returns the key made of its kind and content; registering
  the same symbol again returns the same key and leaves the state as the first
  registration left it, so that the key looks up the same symbol after either. A
  registration adds at most one entry, and any sequence of registrations adds at most
  one entry for each distinct pair of kind and content in it.
\<close>

theorem Register_idempotent:
  "\<exists>k s1. Register (Some b) s = Inr (k, s1)
         \<and> Register (Some b) s1 = Inr (k, s1)
         \<and> k = CodeKind (Metadata b) @ Content b
         \<and> fmlookup (barcodes s1) k = Some (Some b)
         \<and> fcard (fmdom (barcodes s1)) \<le> Suc (fcard (fmdom (barcodes s)))
         \<and> (\<exists>s'. Register_each (map Some bs) s = Inr s'
               \<and> fcard (fmdom (barcodes s')) \<le>
                   fcard (fmdom (barcodes s)) + card ((\<lambda>b. (CodeKind (Metadata b), Content b)) ` set bs))"
proof -
  let ?k = "CodeKind (Metadata b) @ Content b"
  let ?s1 = "s\<lparr>barcodes := fmupd ?k (Some b) (barcodes s)\<rparr>"
  have 1: "Register (Some b) s = Inr (?k, ?s1)" by (rule Register_Some)
  have "fmupd ?k (Some b) (fmupd ?k (Some b) (barcodes s)) = fmupd ?k (Some b) (barcodes s)"
    by (rule fmap_ext) simp
  then have 2: "Register (Some b) ?s1 = Inr (?k, ?s1)" by (simp add: Register_Some)
  have 3: "fmlookup (barcodes ?s1) ?k = Some (Some b)" by simp
  have 4: "fcard (fmdom (barcodes ?s1)) \<le> Suc (fcard (fmdom (barcodes s)))"
    by (simp add: fcard_finsert_if)
  from 1 2 3 4 Register_each_card [of bs s] show ?thesis by blast
qed

end
